theory Spec2Isabelle
  imports Complex_Main
begin

section \<open>Text primitives\<close>

text \<open>
  Python \<open>str\<close> values are modelled as \<open>string\<close>: the UTF-8 text of the value, one
  \<open>char\<close> per byte. The separators the program works with (space, pipe, line feed, hyphen)
  and the keywords it compares against are ASCII, and an ASCII byte never occurs inside a
  multi-byte sequence, so splitting, stripping and replacing act on bytes as they act on
  code points. Character classes (\<open>str.isspace\<close>, \<open>\d\<close>, \<open>str.lower\<close>) are modelled on
  their ASCII part; Unicode-only white space, digits and case pairs are carried through
  unchanged. Where the source takes a single character (the first character of a rating),
  the model takes a single \<open>char\<close>, which is that character when it is ASCII.
\<close>

definition LF :: char where
  "LF = CHR 0x0A"

definition CR :: char where
  "CR = CHR 0x0D"

definition isspace :: "char \<Rightarrow> bool" where
  \<comment> \<open>\<open>str.isspace\<close> on ASCII: TAB, LF, VT, FF, CR, FS, GS, RS, US and space.\<close>
  "isspace c \<longleftrightarrow> (let n = (of_char c :: nat) in (9 \<le> n \<and> n \<le> 13) \<or> (28 \<le> n \<and> n \<le> 32))"

definition isdigit :: "char \<Rightarrow> bool" where
  \<comment> \<open>the class \<open>\d\<close> on ASCII\<close>
  "isdigit c \<longleftrightarrow> (let n = (of_char c :: nat) in 48 \<le> n \<and> n \<le> 57)"

definition lower_char :: "char \<Rightarrow> char" where
  "lower_char c = (let n = (of_char c :: nat) in if 65 \<le> n \<and> n \<le> 90 then char_of (n + 32) else c)"

definition lower :: "string \<Rightarrow> string" where
  \<comment> \<open>\<open>str.lower()\<close>\<close>
  "lower s = map lower_char s"

definition strip :: "string \<Rightarrow> string" where
  \<comment> \<open>\<open>str.strip()\<close>: white space removed at both ends\<close>
  "strip s = rev (dropWhile isspace (rev (dropWhile isspace s)))"

definition replace_char :: "char \<Rightarrow> char \<Rightarrow> string \<Rightarrow> string" where
  \<comment> \<open>\<open>str.replace(old, new)\<close> for one-character \<open>old\<close> and \<open>new\<close>\<close>
  "replace_char old new s = map (\<lambda>c. if c = old then new else c) s"




fun split_on :: "char \<Rightarrow> string \<Rightarrow> string list" where
  \<comment> \<open>cut at every \<open>sep\<close>; always at least one piece\<close>
  "split_on sep [] = [[]]"
| "split_on sep (c # cs) =
     (if c = sep then [] # split_on sep cs
      else (case split_on sep cs of [] \<Rightarrow> [[c]] | p # ps \<Rightarrow> (c # p) # ps))"

section \<open>nlp.py: cleaning stages and the sentiment label\<close>

definition punctuation :: string where
  \<comment> \<open>\<open>string.punctuation\<close>\<close>
  "punctuation = ''!'' @ [CHR 0x22] @ ''#$%&'' @ [CHR 0x27] @ ''()*+,-./:;<=>?@['' @ [CHR 0x5C]
     @ '']^_'' @ [CHR 0x60] @ ''{|}~''"

definition cleaning_punctuations :: "string \<Rightarrow> string" where
  \<comment> \<open>\<open>text.translate(str.maketrans('', '', string.punctuation))\<close>: every character of
      the table is deleted, every other one kept\<close>
  "cleaning_punctuations text = filter (\<lambda>c. c \<notin> set punctuation) text"

text \<open>
  \<open>re.sub(r'\d+', '', text)\<close>: scanning from the left, a greedy run of digits at the
  current position is replaced by nothing and the scan goes on behind it; any other
  character is copied.
\<close>

function cleaning_numbers :: "string \<Rightarrow> string" where
  "cleaning_numbers [] = []"
| "cleaning_numbers (c # cs) =
     (if isdigit c then cleaning_numbers (dropWhile isdigit cs) else c # cleaning_numbers cs)"
  by pat_completeness auto
termination
  by (relation "measure length") (auto simp: less_Suc_eq_le length_dropWhile_le)

text \<open>
  \<open>re.sub(r'https?://\S+|www\.\S+', '', text)\<close>. \<open>url_match\<close> is the regular expression
  tried at the start of its argument: the first alternative, \<open>http\<close>, an optional \<open>s\<close>,
  \<open>://\<close> and a greedy non-empty run of non-space characters, then the second, \<open>www.\<close> and
  such a run. It returns what follows the match. \<open>cleaning_urls\<close> is the left-to-right
  scan of \<open>re.sub\<close>.
\<close>

definition nonspace_run :: "string \<Rightarrow> string option" where
  \<comment> \<open>\<open>\S+\<close> at the start of the argument; the rest behind the greedy run\<close>
  "nonspace_run s =
     (case s of [] \<Rightarrow> None
      | c # cs \<Rightarrow> if isspace c then None else Some (dropWhile (\<lambda>d. \<not> isspace d) cs))"

definition literal :: "string \<Rightarrow> string \<Rightarrow> string option" where
  \<comment> \<open>a literal at the start of the argument; the rest behind it\<close>
  "literal l s = (if take (length l) s = l then Some (drop (length l) s) else None)"

definition url_match :: "string \<Rightarrow> string option" where
  "url_match s =
     (let http =
        (case literal ''http'' s of
           None \<Rightarrow> None
         | Some r \<Rightarrow>
             (case (case literal ''s'' r of
                      Some r' \<Rightarrow> (case literal ''://'' r' of Some t \<Rightarrow> nonspace_run t | None \<Rightarrow> None)
                    | None \<Rightarrow> None) of
                Some rest \<Rightarrow> Some rest
              | None \<Rightarrow> (case literal ''://'' r of Some t \<Rightarrow> nonspace_run t | None \<Rightarrow> None)))
      in case http of
           Some rest \<Rightarrow> Some rest
         | None \<Rightarrow> (case literal ''www.'' s of Some t \<Rightarrow> nonspace_run t | None \<Rightarrow> None))"

lemma nonspace_run_shorter: "nonspace_run s = Some r \<Longrightarrow> length r < length s"
  by (auto simp: nonspace_run_def less_Suc_eq_le length_dropWhile_le split: list.splits if_splits)

lemma literal_shorter: "literal l s = Some r \<Longrightarrow> length r \<le> length s"
  by (auto simp: literal_def split: if_splits)

lemma url_match_shorter: "url_match s = Some r \<Longrightarrow> length r < length s"
  unfolding url_match_def Let_def
  by (auto split: option.splits dest!: nonspace_run_shorter literal_shorter)

function cleaning_urls :: "string \<Rightarrow> string" where
  "cleaning_urls [] = []"
| "cleaning_urls (c # cs) =
     (case url_match (c # cs) of
        Some rest \<Rightarrow> cleaning_urls rest
      | None \<Rightarrow> c # cleaning_urls cs)"
  by pat_completeness auto
termination
  by (relation "measure length") (auto dest: url_match_shorter)

definition url_heads :: "string set" where
  "url_heads = {''http://'', ''https://'', ''www.''}"

definition get_sentiment_label :: "real \<Rightarrow> string" where
  "get_sentiment_label score =
     (if score < 0 then ''Negative''
      else if score = 0 then ''Neutral''
      else ''Positive'')"

section \<open>Files, errors and console output\<close>

text \<open>
  The local file system is a map from paths to file contents. An exception of the source
  is a value of \<open>error\<close>; a function that can raise returns \<open>error + 'a\<close>. A call of
  \<open>print\<close> is one \<open>message\<close>, holding the values the source interpolates into its text.
\<close>

type_synonym filesystem = "string \<rightharpoonup> string"

datatype error = FileNotFoundError | ZeroDivisionError | KeyError | ParserError | EmptyDataError
  | ConnectionError

datatype percent = Percent nat nat
  \<comment> \<open>\<open>round((n / d) * 100, 1)\<close>, kept as the two counts it is computed from: the
      floating-point value is not modelled\<close>

datatype message =
    SkippingReview "string list"
  | ExtractingReviews string
  | FoundReviews string nat
  | FileNotFoundFor string
  | DownloadingHTML string
  | HTMLSaved string
  | FailedToRetrieve string int
  | Heading string
  | TotalReviews nat
  | VerifiedReviews nat percent
  | NonVerifiedReviews nat percent
  | TotalNegativeReviews nat
  | NonVerifiedNegativeReviews nat percent

definition os_path_exists :: "filesystem \<Rightarrow> string \<Rightarrow> bool" where
  "os_path_exists fs path \<longleftrightarrow> fs path \<noteq> None"

section \<open>storage.py\<close>






text \<open>
  \<open>pd.read_csv(path, sep="|", encoding="utf-8", skiprows=[1])\<close>. The reader belongs to
  a library; it is modelled as far as this program drives it. The content is cut into
  physical lines at LF, CR or CR LF; the lines whose number is in \<open>skiprows\<close> are
  dropped, then the lines that are empty or hold only spaces and tabs; the first line
  left is the header, every other one a record, cut at each separator. The first record
  fixes the width of the table (at least the width of the header); a later record with
  more fields is a \<open>ParserError\<close>, one with fewer is filled with missing values. Fields of
  a record in excess of the header are the leading index columns. Cells stay text: the
  reader's quoted fields (a field that opens with a double quote), its conversion of a
  column to numbers and its recognition of missing-value spellings, and its renaming of
  empty or repeated column names are not modelled.
\<close>

type_synonym cell = "string option"

record dataframe =
  columns :: "string list"
  index :: "cell list list"
  rows :: "cell list list"

fun split_lines_from :: "string \<Rightarrow> string \<Rightarrow> string list" where
  "split_lines_from acc [] = (if acc = [] then [] else [rev acc])"
| "split_lines_from acc [c] = (if c = LF \<or> c = CR then [rev acc] else [rev (c # acc)])"
| "split_lines_from acc (c # d # ds) =
     (if c = LF then rev acc # split_lines_from [] (d # ds)
      else if c = CR then rev acc # split_lines_from [] (if d = LF then ds else d # ds)
      else split_lines_from (c # acc) (d # ds))"

definition split_lines :: "string \<Rightarrow> string list" where
  "split_lines content = split_lines_from [] content"

fun skip_rows :: "nat list \<Rightarrow> nat \<Rightarrow> 'a list \<Rightarrow> 'a list" where
  \<comment> \<open>drop the lines whose number, counted from the second argument, is listed\<close>
  "skip_rows skiprows i [] = []"
| "skip_rows skiprows i (l # ls) =
     (if i \<in> set skiprows then skip_rows skiprows (Suc i) ls else l # skip_rows skiprows (Suc i) ls)"

definition blank_line :: "string \<Rightarrow> bool" where
  "blank_line l \<longleftrightarrow> list_all (\<lambda>c. c = CHR '' '' \<or> c = CHR 0x09) l"

definition pad_record :: "nat \<Rightarrow> string list \<Rightarrow> cell list" where
  "pad_record width r = map Some r @ replicate (width - length r) None"

definition read_csv :: "filesystem \<Rightarrow> string \<Rightarrow> char \<Rightarrow> nat list \<Rightarrow> error + dataframe" where
  "read_csv fs path sep skiprows =
     (case fs path of
        None \<Rightarrow> Inl FileNotFoundError
      | Some content \<Rightarrow>
          (case filter (\<lambda>l. \<not> blank_line l) (skip_rows skiprows 0 (split_lines content)) of
             [] \<Rightarrow> Inl EmptyDataError
           | header # records \<Rightarrow>
               (let names = split_on sep header;
                    recs = map (split_on sep) records;
                    width = (case recs of [] \<Rightarrow> length names | r # _ \<Rightarrow> max (length names) (length r));
                    leading = width - length names
                in if list_ex (\<lambda>r. width < length r) recs then Inl ParserError
                   else Inr \<lparr>columns = names,
                             index = map (\<lambda>r. take leading (pad_record width r)) recs,
                             rows = map (\<lambda>r. drop leading (pad_record width r)) recs\<rparr>)))"

definition load_reviews_df :: "filesystem \<Rightarrow> string \<Rightarrow> error + dataframe" where
  \<comment> \<open>the source reads the literal \<open>"all_reviews.txt"\<close>; \<open>file_path\<close> is not used\<close>
  "load_reviews_df fs file_path =
     (case read_csv fs ''all_reviews.txt'' (CHR ''|'') [1] of
        Inl e \<Rightarrow> Inl e
      | Inr df \<Rightarrow> Inr (df\<lparr>columns := map strip (columns df)\<rparr>))"

section \<open>scraping.py\<close>

text \<open>
  A parsed document is a tree of tags and text. \<open>BeautifulSoup(file, "html.parser")\<close>
  belongs to a library and is a parameter \<open>parser\<close> of the functions that call it; the
  queries the program makes on the tree (\<open>find_all\<close>, \<open>find\<close>, \<open>.text\<close>) are modelled:
  \<open>find_all\<close> returns the matching tags below a node in document order, \<open>find\<close> the first
  of them, \<open>.text\<close> the concatenation of the text below a node. A \<open>class_\<close> argument
  matches a tag that carries the class among its classes.
\<close>

datatype node = Element string "string list" "node list" | Text string

fun descendants :: "node \<Rightarrow> node list" where
  "descendants (Text s) = []"
| "descendants (Element name classes children) = concat (map (\<lambda>k. k # descendants k) children)"

fun matches :: "string \<Rightarrow> string option \<Rightarrow> node \<Rightarrow> bool" where
  "matches name cls (Text s) = False"
| "matches name cls (Element name' classes children) =
     (name' = name \<and> (case cls of None \<Rightarrow> True | Some c \<Rightarrow> c \<in> set classes))"

definition find_all :: "string \<Rightarrow> string option \<Rightarrow> node \<Rightarrow> node list" where
  "find_all name cls tree = filter (matches name cls) (descendants tree)"

definition find :: "string \<Rightarrow> string option \<Rightarrow> node \<Rightarrow> node option" where
  "find name cls tree = (case find_all name cls tree of [] \<Rightarrow> None | e # _ \<Rightarrow> Some e)"

fun text_of :: "node \<Rightarrow> string" where
  "text_of (Text s) = s"
| "text_of (Element name classes children) = concat (map text_of children)"

definition slice_to :: "'a list \<Rightarrow> int \<Rightarrow> 'a list" where
  \<comment> \<open>\<open>xs[:n]\<close>: a negative \<open>n\<close> counts from the end\<close>
  "slice_to xs n = (if 0 \<le> n then take (nat n) xs else take (nat (int (length xs) + n)) xs)"

definition airlines :: "string list" where
  "airlines = [''British Airways'', ''Lufthansa'', ''Emirates'', ''Qatar'', ''Singapore Airlines'',
     ''American Airlines'']"

definition extract_review :: "node \<Rightarrow> string list" where
  \<comment> \<open>the body of the loop of \<open>scrape_reviews_from_file\<close>; the pause of five seconds it
      starts with is not modelled\<close>
  "extract_review article =
     (let title = (case find ''h2'' None article of Some e \<Rightarrow> text_of e | None \<Rightarrow> ''No Title'');
          rating = (case find ''div'' (Some ''rating-10'') article of
                      Some e \<Rightarrow> (case strip (text_of e) of c # _ \<Rightarrow> [c] | [] \<Rightarrow> ''No Rating'')
                    | None \<Rightarrow> ''No Rating'');
          review_text = (case find ''div'' (Some ''text_content'') article of
                           Some e \<Rightarrow> text_of e | None \<Rightarrow> ''No Review'')
      in [title, rating, review_text])"

definition scrape_reviews_from_file ::
  "(string \<Rightarrow> node) \<Rightarrow> filesystem \<Rightarrow> string \<Rightarrow> int \<Rightarrow> error + string list list" where
  "scrape_reviews_from_file parser fs file_path max_reviews =
     (case fs file_path of
        None \<Rightarrow> Inl FileNotFoundError
      | Some file \<Rightarrow>
          (let soup = parser file;
               articles = find_all ''article'' (Some ''comp_media-review-rated'') soup
           in Inr (map extract_review (slice_to articles max_reviews))))"

text \<open>
  \<open>requests.get\<close> is a parameter \<open>get\<close>: the status code and the text of the response
  for a URL, or the exception of a failed transport. One pass of the loop of
  \<open>download_airline_reviews\<close> takes the file system and the console output so far and
  returns them updated, with the exception that ended the pass, if any.
\<close>

definition download_airline ::
  "(string \<Rightarrow> error + int \<times> string) \<Rightarrow> string \<Rightarrow> filesystem \<times> message list
     \<Rightarrow> (filesystem \<times> message list) \<times> error option" where
  "download_airline get airline st =
     (let formatted_airline = replace_char (CHR '' '') (CHR ''-'') (lower airline);
          url = ''https://www.airlinequality.com/airline-reviews/'' @ formatted_airline @ ''/''
      in case get url of
           Inl e \<Rightarrow> (st, Some e)
         | Inr (status_code, text) \<Rightarrow>
             if status_code = 200
             then (((fst st)(''data/'' @ formatted_airline @ ''.html'' \<mapsto> text),
                     snd st @ [DownloadingHTML airline, HTMLSaved airline]), None)
             else ((fst st, snd st @ [FailedToRetrieve airline status_code]), None))"

fun download_loop ::
  "(string \<Rightarrow> error + int \<times> string) \<Rightarrow> string list \<Rightarrow> filesystem \<times> message list
     \<Rightarrow> (filesystem \<times> message list) \<times> error option" where
  "download_loop get [] st = (st, None)"
| "download_loop get (airline # rest) st =
     (case download_airline get airline st of
        (st', Some e) \<Rightarrow> (st', Some e)
      | (st', None) \<Rightarrow> download_loop get rest st')"

definition download_airline_reviews ::
  "(string \<Rightarrow> error + int \<times> string) \<Rightarrow> filesystem \<times> message list
     \<Rightarrow> (filesystem \<times> message list) \<times> error option" where
  "download_airline_reviews get st = download_loop get airlines st"

section \<open>processing.py\<close>

definition process_airline_reviews ::
  "(string \<Rightarrow> node) \<Rightarrow> filesystem \<Rightarrow> string \<Rightarrow> error + string list list \<times> message list" where
  "process_airline_reviews parser fs airline =
     (let formatted_airline = replace_char (CHR '' '') (CHR ''-'') (lower airline);
          file_path = ''data/'' @ formatted_airline @ ''.html''
      in if os_path_exists fs file_path
         then (case scrape_reviews_from_file parser fs file_path 20 of
                 Inl e \<Rightarrow> Inl e
               | Inr extracted_reviews \<Rightarrow>
                   Inr (map (\<lambda>review. airline # review) extracted_reviews,
                        [ExtractingReviews airline, FoundReviews airline (length extracted_reviews)]))
         else Inr ([], [FileNotFoundFor airline]))"

fun consolidate_loop ::
  "(string \<Rightarrow> node) \<Rightarrow> filesystem \<Rightarrow> string list \<Rightarrow> string list list \<times> message list
     \<Rightarrow> error + string list list \<times> message list" where
  "consolidate_loop parser fs [] acc = Inr acc"
| "consolidate_loop parser fs (airline # rest) acc =
     (case process_airline_reviews parser fs airline of
        Inl e \<Rightarrow> Inl e
      | Inr (reviews, printed) \<Rightarrow>
          consolidate_loop parser fs rest (fst acc @ reviews, snd acc @ printed))"

definition consolidate_reviews ::
  "(string \<Rightarrow> node) \<Rightarrow> filesystem \<Rightarrow> error + string list list \<times> message list" where
  "consolidate_reviews parser fs = consolidate_loop parser fs airlines ([], [])"

section \<open>nlp.py: statistics over the processed table\<close>

text \<open>
  A row of the table after \<open>nlp_pipeline\<close>, with the columns the two analyses read.
\<close>

record review_row =
  Airline_Name :: string
  Verified :: string
  Clean_Review :: string
  Sentiment :: string

definition trip_verified_tag :: string where
  \<comment> \<open>the literal of the source, check mark included, as its UTF-8 bytes\<close>
  "trip_verified_tag = [CHR 0xC3, CHR 0xA2, CHR 0xC5, CHR 0x93, CHR 0xE2, CHR 0x80, CHR 0xA6]
     @ '' Trip Verified''"

definition percentage :: "nat \<Rightarrow> nat \<Rightarrow> error + percent" where
  \<comment> \<open>\<open>round((n / d) * 100, 1)\<close> on two Python integers: the division raises on a zero
      divisor\<close>
  "percentage n d = (if d = 0 then Inl ZeroDivisionError else Inr (Percent n d))"

definition value_count :: "string \<Rightarrow> review_row list \<Rightarrow> nat" where
  \<comment> \<open>\<open>data['Verified'].value_counts().get(tag, 0)\<close>\<close>
  "value_count tag data = length (filter (\<lambda>r. Verified r = tag) data)"

definition analyse_verification_status :: "review_row list \<Rightarrow> message list \<times> (error + unit)" where
  "analyse_verification_status data =
     (let total_reviews = length data;
          verified_reviews = value_count trip_verified_tag data;
          non_verified_reviews = value_count ''Not Verified'' data
      in case percentage verified_reviews total_reviews of
           Inl e \<Rightarrow> ([], Inl e)
         | Inr verified_percentage \<Rightarrow>
        (case percentage non_verified_reviews total_reviews of
           Inl e \<Rightarrow> ([], Inl e)
         | Inr non_verified_percentage \<Rightarrow>
        (let printed = [Heading ''Verification Status Distribution:'',
                        TotalReviews total_reviews,
                        VerifiedReviews verified_reviews verified_percentage,
                        NonVerifiedReviews non_verified_reviews non_verified_percentage];
             negative_reviews = filter (\<lambda>r. Sentiment r = ''Negative'') data;
             negative_non_verified = filter (\<lambda>r. Verified r = ''Not Verified'') negative_reviews
         in case percentage (length negative_non_verified) (length negative_reviews) of
              Inl e \<Rightarrow> (printed, Inl e)
            | Inr negative_non_verified_percentage \<Rightarrow>
                (printed @ [Heading ''Non-Verified Reviews Among Negative Sentiment:'',
                            TotalNegativeReviews (length negative_reviews),
                            NonVerifiedNegativeReviews (length negative_non_verified)
                              negative_non_verified_percentage],
                 Inr ()))))"







section \<open>Notions of the specification\<close>

text \<open>
  The terms in which the claims are stated: the negative-sentiment subset of a table, the
  cache file of an airline (the path both the fetcher and the consolidator derive from its
  slug), the address of its review page, and what an airline contributes to the
  consolidated sequence.
\<close>

definition negative_subset :: "review_row list \<Rightarrow> review_row list" where
  "negative_subset data = filter (\<lambda>r. Sentiment r = ''Negative'') data"

definition cache_path :: "string \<Rightarrow> string" where
  "cache_path airline = ''data/'' @ replace_char (CHR '' '') (CHR ''-'') (lower airline) @ ''.html''"

definition review_page_url :: "string \<Rightarrow> string" where
  "review_page_url airline = ''https://www.airlinequality.com/airline-reviews/''
     @ replace_char (CHR '' '') (CHR ''-'') (lower airline) @ ''/''"

definition contribution :: "(string \<Rightarrow> node) \<Rightarrow> filesystem \<Rightarrow> string \<Rightarrow> string list list" where
  "contribution parser fs airline =
     (case fs (cache_path airline) of
        None \<Rightarrow> []
      | Some file \<Rightarrow>
          map (\<lambda>review. airline # review)
            (map extract_review
               (take 20 (find_all ''article'' (Some ''comp_media-review-rated'') (parser file)))))"

definition printed_for :: "(string \<Rightarrow> node) \<Rightarrow> filesystem \<Rightarrow> string \<Rightarrow> message list" where
  "printed_for parser fs airline =
     (case fs (cache_path airline) of
        None \<Rightarrow> [FileNotFoundFor airline]
      | Some file \<Rightarrow>
          [ExtractingReviews airline, FoundReviews airline (length (contribution parser fs airline))])"

definition sample_page :: node where
  \<comment> \<open>a review page with two review containers, used for the concrete instances\<close>
  "sample_page = Element ''[document]'' []
     [Element ''article'' [''comp_media-review-rated'']
        [Element ''h2'' [] [Text ''Late again''],
         Element ''div'' [''rating-10''] [Text '' 3/10 ''],
         Element ''div'' [''text_content''] [Text ''Trip Verified | two hours late'']],
      Element ''article'' [''comp_media-review-rated'']
        [Element ''h2'' [] [Text ''Fine'']]]"












definition stored_file :: "string list \<Rightarrow> string" where
  "stored_file texts = concat (map (\<lambda>l. l @ [LF]) texts)"

section \<open>Properties of the cleaning stages and of the label\<close>

lemma cleaning_numbers_filter: "cleaning_numbers s = filter (\<lambda>c. \<not> isdigit c) s"
proof (induction s rule: cleaning_numbers.induct)
  case 1
  then show ?case by simp
next
  case (2 c cs)
  show ?case
  proof (cases "isdigit c")
    case True
    have "filter (\<lambda>c. \<not> isdigit c) (dropWhile isdigit cs) = filter (\<lambda>c. \<not> isdigit c) cs"
      by (induction cs) auto
    with True 2 show ?thesis by simp
  next
    case False
    with 2 show ?thesis by simp
  qed
qed

lemma literal_iff: "literal l s = Some r \<longleftrightarrow> s = l @ r"
  unfolding literal_def
  by (metis append_eq_conv_conj option.distinct(1) option.inject)

lemma literal_None_iff: "literal l s = None \<longleftrightarrow> (\<forall>r. s \<noteq> l @ r)"
  using literal_iff [of l s] by (metis not_Some_eq)

lemma nonspace_run_iff:
  "nonspace_run s = Some r \<longleftrightarrow> (\<exists>d t. s = d # t \<and> \<not> isspace d \<and> r = dropWhile (\<lambda>c. \<not> isspace c) t)"
  by (auto simp: nonspace_run_def split: list.splits)

lemma url_heads_nonspace: "l \<in> url_heads \<Longrightarrow> c \<in> set l \<Longrightarrow> \<not> isspace c"
  by (auto simp: url_heads_def isspace_def)

lemma url_heads_nonempty: "l \<in> url_heads \<Longrightarrow> l \<noteq> []"
  by (auto simp: url_heads_def)

lemma url_match_SomeD:
  assumes "url_match s = Some rest"
  shows "\<exists>l d t. l \<in> url_heads \<and> s = l @ d # t \<and> \<not> isspace d \<and> rest = dropWhile (\<lambda>c. \<not> isspace c) t"
  using assms unfolding url_match_def Let_def url_heads_def
  by (auto split: option.splits simp: literal_iff nonspace_run_iff)

lemma url_match_heads:
  assumes "l \<in> url_heads" "\<not> isspace d"
  shows "url_match (l @ d # t) \<noteq> None"
  using assms unfolding url_match_def Let_def url_heads_def
  by (auto simp: literal_def nonspace_run_def split: option.splits)

lemma url_match_space: "isspace c \<Longrightarrow> url_match (c # cs) = None"
proof (rule ccontr)
  assume sp: "isspace c" and "url_match (c # cs) \<noteq> None"
  then obtain rest where "url_match (c # cs) = Some rest" by auto
  from url_match_SomeD [OF this] obtain l d t where
    l: "l \<in> url_heads" and eq: "c # cs = l @ d # t" by blast
  from l have "l \<noteq> []" by (rule url_heads_nonempty)
  with eq have "c \<in> set l" by (cases l) auto
  with l sp show False using url_heads_nonspace by blast
qed

lemma cleaning_urls_after_match:
  assumes "rest = [] \<or> isspace (hd rest)"
    and "cleaning_urls rest = p @ r" and "\<forall>c\<in>set p. \<not> isspace c"
  shows "p = []"
proof (cases rest)
  case Nil
  with assms(2) show ?thesis by simp
next
  case (Cons a as)
  with assms(1) have "isspace a" by simp
  then have "cleaning_urls (a # as) = a # cleaning_urls as"
    by (simp add: url_match_space)
  with assms(2) Cons have "a # cleaning_urls as = p @ r" by simp
  with assms(3) \<open>isspace a\<close> show ?thesis by (cases p) auto
qed

lemma dropWhile_nonspace_head:
  "dropWhile (\<lambda>c. \<not> isspace c) t = [] \<or> isspace (hd (dropWhile (\<lambda>c. \<not> isspace c) t))"
  using hd_dropWhile [of "\<lambda>c. \<not> isspace c" t] by auto

lemma cleaning_urls_prefix:
  "cleaning_urls s = p @ r \<Longrightarrow> \<forall>c\<in>set p. \<not> isspace c \<Longrightarrow> \<exists>r'. s = p @ r'"
proof (induction s arbitrary: p r rule: cleaning_urls.induct)
  case 1
  then show ?case by simp
next
  case (2 c cs)
  show ?case
  proof (cases "url_match (c # cs)")
    case None
    with "2.prems" have eq: "c # cleaning_urls cs = p @ r" by simp
    show ?thesis
    proof (cases p)
      case Nil
      then show ?thesis by simp
    next
      case (Cons a p')
      with eq have "a = c" and "cleaning_urls cs = p' @ r" by auto
      moreover from Cons "2.prems" have "\<forall>c\<in>set p'. \<not> isspace c" by simp
      ultimately obtain r' where "cs = p' @ r'" using "2.IH"(1) [OF None] by blast
      with Cons \<open>a = c\<close> show ?thesis by simp
    qed
  next
    case (Some rest)
    from url_match_SomeD [OF Some] obtain t where
      "rest = dropWhile (\<lambda>c. \<not> isspace c) t" by blast
    moreover from Some "2.prems" have "cleaning_urls rest = p @ r" by simp
    ultimately have "p = []"
      using cleaning_urls_after_match [OF dropWhile_nonspace_head] "2.prems"(2) by blast
    then show ?thesis by simp
  qed
qed

lemma url_match_cleaned:
  assumes "url_match (c # cs) = None"
  shows "url_match (c # cleaning_urls cs) = None"
proof (rule ccontr)
  assume "url_match (c # cleaning_urls cs) \<noteq> None"
  then obtain rest where "url_match (c # cleaning_urls cs) = Some rest" by auto
  from url_match_SomeD [OF this] obtain l d t where
    l: "l \<in> url_heads" and eq: "c # cleaning_urls cs = l @ d # t" and d: "\<not> isspace d"
    by blast
  from l obtain l' where l': "l = c # l'" using eq url_heads_nonempty [OF l] by (cases l) auto
  with eq have "cleaning_urls cs = (l' @ [d]) @ t" by simp
  moreover have "\<forall>x\<in>set (l' @ [d]). \<not> isspace x"
    using l l' d url_heads_nonspace by auto
  ultimately obtain r' where "cs = (l' @ [d]) @ r'"
    using cleaning_urls_prefix by blast
  with l' have "c # cs = l @ d # r'" by simp
  with url_match_heads [OF l d, of r'] assms show False by simp
qed

lemma cleaning_urls_idem: "cleaning_urls (cleaning_urls s) = cleaning_urls s"
proof (induction s rule: cleaning_urls.induct)
  case 1
  then show ?case by simp
next
  case (2 c cs)
  show ?case
  proof (cases "url_match (c # cs)")
    case None
    with 2 show ?thesis by (simp add: url_match_cleaned)
  next
    case (Some rest)
    with 2 show ?thesis by simp
  qed
qed

text \<open>
  Claim C9. The punctuation-stripping, digit-removal and URL-removal stages are each
  idempotent: applied to its own output, a stage returns that output unchanged, for every
  input text.
\<close>

theorem cleaning_stages_idempotent:
  "cleaning_punctuations (cleaning_punctuations text) = cleaning_punctuations text
   \<and> cleaning_numbers (cleaning_numbers text) = cleaning_numbers text
   \<and> cleaning_urls (cleaning_urls text) = cleaning_urls text"
  by (simp add: cleaning_punctuations_def cleaning_numbers_filter cleaning_urls_idem)

theorem cleaning_stages_idempotent_witness:
  "cleaning_punctuations ''Late!! see wwwwww.ba.com at 24h'' = ''Late see wwwwwwbacom at 24h''
   \<and> cleaning_punctuations (cleaning_punctuations ''Late!! see wwwwww.ba.com at 24h'')
       = ''Late see wwwwwwbacom at 24h''
   \<and> cleaning_numbers ''Late!! see wwwwww.ba.com at 24h'' = ''Late!! see wwwwww.ba.com at h''
   \<and> cleaning_numbers (cleaning_numbers ''Late!! see wwwwww.ba.com at 24h'')
       = ''Late!! see wwwwww.ba.com at h''
   \<and> cleaning_urls ''Late!! see wwwwww.ba.com at 24h'' = ''Late!! see www at 24h''
   \<and> cleaning_urls (cleaning_urls ''Late!! see wwwwww.ba.com at 24h'') = ''Late!! see www at 24h''"
proof -
  have p: "cleaning_punctuations ''Late!! see wwwwww.ba.com at 24h'' = ''Late see wwwwwwbacom at 24h''"
    by code_simp
  have n: "cleaning_numbers ''Late!! see wwwwww.ba.com at 24h'' = ''Late!! see wwwwww.ba.com at h''"
    by code_simp
  have u: "cleaning_urls ''Late!! see wwwwww.ba.com at 24h'' = ''Late!! see www at 24h''"
    by code_simp
  show ?thesis
    using cleaning_stages_idempotent [of "''Late!! see wwwwww.ba.com at 24h''"] p n u
    by (simp only:)
qed

text \<open>
  Claim C6. The sentiment label is total and three-way exact: for every real polarity the
  result is one of Positive, Negative, Neutral; it is Positive exactly for a polarity above
  zero, Neutral exactly for zero, and Negative exactly for a polarity below zero.
\<close>

theorem get_sentiment_label_three_way:
  "get_sentiment_label p \<in> {''Positive'', ''Negative'', ''Neutral''}
   \<and> (get_sentiment_label p = ''Positive'' \<longleftrightarrow> 0 < p)
   \<and> (get_sentiment_label p = ''Neutral'' \<longleftrightarrow> p = 0)
   \<and> (get_sentiment_label p = ''Negative'' \<longleftrightarrow> p < 0)"
  by (simp add: get_sentiment_label_def)

theorem get_sentiment_label_three_way_witness:
  "get_sentiment_label 0 = ''Neutral''
   \<and> get_sentiment_label (1 / 2) = ''Positive''
   \<and> get_sentiment_label (- (1 / 2)) = ''Negative''"
  using get_sentiment_label_three_way [of 0] get_sentiment_label_three_way [of "1 / 2"]
    get_sentiment_label_three_way [of "- (1 / 2)"]
  by simp

section \<open>Verification statistics\<close>

text \<open>
  Claim C4, as the code has it. The verification statistics do not guard the division by
  the size of the negative subset: on a table that is not empty and has no row labelled
  Negative, the overall distribution is printed and the computation then fails with
  \<open>ZeroDivisionError\<close>; on an empty table it fails at the first division; it completes
  exactly when the table and its negative subset are both non-empty.
\<close>

theorem analyse_verification_status_unguarded:
  "(snd (analyse_verification_status data) = Inr () \<longleftrightarrow> data \<noteq> [] \<and> negative_subset data \<noteq> [])
   \<and> (data \<noteq> [] \<and> negative_subset data = [] \<longrightarrow>
        analyse_verification_status data =
          ([Heading ''Verification Status Distribution:'',
            TotalReviews (length data),
            VerifiedReviews (value_count trip_verified_tag data)
              (Percent (value_count trip_verified_tag data) (length data)),
            NonVerifiedReviews (value_count ''Not Verified'' data)
              (Percent (value_count ''Not Verified'' data) (length data))],
           Inl ZeroDivisionError))
   \<and> (data = [] \<longrightarrow> analyse_verification_status data = ([], Inl ZeroDivisionError))"
  by (simp add: analyse_verification_status_def percentage_def negative_subset_def Let_def)

theorem analyse_verification_status_unguarded_witness:
  "analyse_verification_status
     [\<lparr>Airline_Name = ''Emirates'', Verified = ''Not Verified'',
       Clean_Review = ''great flight'', Sentiment = ''Positive''\<rparr>]
   = ([Heading ''Verification Status Distribution:'', TotalReviews 1,
       VerifiedReviews 0 (Percent 0 1), NonVerifiedReviews 1 (Percent 1 1)],
      Inl ZeroDivisionError)"
  using analyse_verification_status_unguarded
    [of "[\<lparr>Airline_Name = ''Emirates'', Verified = ''Not Verified'',
           Clean_Review = ''great flight'', Sentiment = ''Positive''\<rparr>]"]
  by (simp add: negative_subset_def value_count_def trip_verified_tag_def)

text \<open>
  The claim as stated, that the division is guarded when the negative subset is empty,
  fails on a table of one Positive row.
\<close>

theorem verification_division_guard_counterexample:
  "negative_subset
     [\<lparr>Airline_Name = ''Emirates'', Verified = ''Not Verified'',
       Clean_Review = ''great flight'', Sentiment = ''Positive''\<rparr>] = []
   \<and> snd (analyse_verification_status
     [\<lparr>Airline_Name = ''Emirates'', Verified = ''Not Verified'',
       Clean_Review = ''great flight'', Sentiment = ''Positive''\<rparr>]) = Inl ZeroDivisionError"
  by (simp add: analyse_verification_status_def percentage_def negative_subset_def Let_def
      value_count_def)

section \<open>Extraction\<close>




section \<open>Consolidation\<close>

lemma process_airline_reviews_eq:
  "process_airline_reviews parser fs airline =
     (case fs (cache_path airline) of
        None \<Rightarrow> Inr ([], [FileNotFoundFor airline])
      | Some file \<Rightarrow>
          Inr (contribution parser fs airline,
               [ExtractingReviews airline, FoundReviews airline (length (contribution parser fs airline))]))"
  by (simp add: process_airline_reviews_def cache_path_def contribution_def os_path_exists_def
      scrape_reviews_from_file_def slice_to_def Let_def split: option.splits)

lemma consolidate_loop_eq:
  "consolidate_loop parser fs as acc =
     Inr (fst acc @ concat (map (contribution parser fs) as),
          snd acc @ concat (map (printed_for parser fs) as))"
proof (induction as arbitrary: acc)
  case Nil
  then show ?case by simp
next
  case (Cons a as)
  show ?case
  proof (cases "fs (cache_path a)")
    case None
    then have "contribution parser fs a = []" by (simp add: contribution_def)
    with None show ?thesis
      by (simp add: Cons.IH process_airline_reviews_eq printed_for_def)
  next
    case (Some body)
    then show ?thesis
      by (simp add: Cons.IH process_airline_reviews_eq printed_for_def)
  qed
qed

text \<open>
  Claim C8. An airline whose cached document does not exist contributes no record and
  raises nothing: its pass prints the diagnostic and returns the empty list. The
  consolidation always returns, with the contributions of the airlines concatenated in
  airline order.
\<close>

theorem missing_document_contributes_nothing:
  "(fs (cache_path airline) = None \<longrightarrow>
      process_airline_reviews parser fs airline = Inr ([], [FileNotFoundFor airline])
      \<and> contribution parser fs airline = [])
   \<and> consolidate_loop parser fs as ([], []) =
       Inr (concat (map (contribution parser fs) as), concat (map (printed_for parser fs) as))
   \<and> consolidate_reviews parser fs =
       Inr (concat (map (contribution parser fs) airlines),
            concat (map (printed_for parser fs) airlines))"
  by (simp add: consolidate_reviews_def consolidate_loop_eq process_airline_reviews_eq contribution_def)

theorem missing_document_contributes_nothing_witness:
  "consolidate_reviews (\<lambda>file. sample_page) [''data/qatar.html'' \<mapsto> ''<html>'']
     = Inr ([[''Qatar'', ''Late again'', ''3'', ''Trip Verified | two hours late''],
             [''Qatar'', ''Fine'', ''No Rating'', ''No Review'']],
            [FileNotFoundFor ''British Airways'', FileNotFoundFor ''Lufthansa'',
             FileNotFoundFor ''Emirates'', ExtractingReviews ''Qatar'', FoundReviews ''Qatar'' 2,
             FileNotFoundFor ''Singapore Airlines'', FileNotFoundFor ''American Airlines''])
   \<and> process_airline_reviews (\<lambda>file. sample_page) [''data/qatar.html'' \<mapsto> ''<html>''] ''Lufthansa''
     = Inr ([], [FileNotFoundFor ''Lufthansa''])"
proof -
  have paths: "map cache_path airlines = [''data/british-airways.html'', ''data/lufthansa.html'',
      ''data/emirates.html'', ''data/qatar.html'', ''data/singapore-airlines.html'',
      ''data/american-airlines.html'']"
    by code_simp
  have l: "[''data/qatar.html'' \<mapsto> ''<html>''] (cache_path ''Lufthansa'') = None"
    using paths by (simp add: airlines_def)
  have c: "map (contribution (\<lambda>file. sample_page) [''data/qatar.html'' \<mapsto> ''<html>'']) airlines
      = [[], [], [], [[''Qatar'', ''Late again'', ''3'', ''Trip Verified | two hours late''],
             [''Qatar'', ''Fine'', ''No Rating'', ''No Review'']], [], []]"
    using paths
    by (simp add: airlines_def contribution_def sample_page_def extract_review_def find_def
        find_all_def strip_def isspace_def)
  have p: "map (printed_for (\<lambda>file. sample_page) [''data/qatar.html'' \<mapsto> ''<html>'']) airlines
      = [[FileNotFoundFor ''British Airways''], [FileNotFoundFor ''Lufthansa''],
         [FileNotFoundFor ''Emirates''], [ExtractingReviews ''Qatar'', FoundReviews ''Qatar'' 2],
         [FileNotFoundFor ''Singapore Airlines''], [FileNotFoundFor ''American Airlines'']]"
    using paths
    by (simp add: airlines_def contribution_def printed_for_def sample_page_def find_all_def)
  show ?thesis
    using missing_document_contributes_nothing
      [of "[''data/qatar.html'' \<mapsto> ''<html>'']" "''Lufthansa''" "\<lambda>file. sample_page" "[]"] l
    by (simp add: c p)
qed

text \<open>
  Claim C10. The fetcher and the consolidator derive the cache file of an airline by the
  same slug (lower case, spaces replaced by hyphens, under \<open>data/\<close>, with the suffix
  \<open>.html\<close>): the file the fetcher writes on a successful download is the file whose
  existence the consolidator checks, and whose content it then extracts from.
\<close>

theorem fetcher_writes_where_consolidator_reads:
  assumes "get (review_page_url airline) = Inr (200, body)"
  shows "download_airline get airline (fs, printed) =
           ((fs(cache_path airline \<mapsto> body),
             printed @ [DownloadingHTML airline, HTMLSaved airline]), None)
     \<and> os_path_exists (fs(cache_path airline \<mapsto> body)) (cache_path airline)
     \<and> process_airline_reviews parser (fs(cache_path airline \<mapsto> body)) airline =
         Inr (map (\<lambda>review. airline # review)
                (map extract_review
                   (take 20 (find_all ''article'' (Some ''comp_media-review-rated'') (parser body)))),
              [ExtractingReviews airline,
               FoundReviews airline
                 (length (take 20 (find_all ''article'' (Some ''comp_media-review-rated'') (parser body))))])"
  using assms
  by (simp add: download_airline_def review_page_url_def cache_path_def os_path_exists_def
      process_airline_reviews_def scrape_reviews_from_file_def slice_to_def Let_def)

theorem fetcher_writes_where_consolidator_reads_witness:
  "download_airline (\<lambda>url. Inr (200, ''<html>'')) ''Singapore Airlines'' (Map.empty, [])
     = (([''data/singapore-airlines.html'' \<mapsto> ''<html>''],
         [DownloadingHTML ''Singapore Airlines'', HTMLSaved ''Singapore Airlines'']), None)
   \<and> process_airline_reviews (\<lambda>file. sample_page) [''data/singapore-airlines.html'' \<mapsto> ''<html>'']
        ''Singapore Airlines''
     = Inr ([[''Singapore Airlines'', ''Late again'', ''3'', ''Trip Verified | two hours late''],
             [''Singapore Airlines'', ''Fine'', ''No Rating'', ''No Review'']],
            [ExtractingReviews ''Singapore Airlines'', FoundReviews ''Singapore Airlines'' 2])"
proof -
  have p: "cache_path ''Singapore Airlines'' = ''data/singapore-airlines.html''"
    by code_simp
  have e: "map extract_review (take 20 (find_all ''article'' (Some ''comp_media-review-rated'') sample_page))
      = [[''Late again'', ''3'', ''Trip Verified | two hours late''], [''Fine'', ''No Rating'', ''No Review'']]"
    by (simp add: sample_page_def extract_review_def find_def find_all_def strip_def isspace_def)
  have n: "length (take 20 (find_all ''article'' (Some ''comp_media-review-rated'') sample_page)) = 2"
    by (simp add: sample_page_def find_all_def)
  show ?thesis
    using fetcher_writes_where_consolidator_reads
      [of "\<lambda>url. Inr (200, ''<html>'')" "''Singapore Airlines''" "''<html>''" Map.empty "[]"
          "\<lambda>file. sample_page", unfolded p e n]
    by simp
qed

section \<open>Delay signal\<close>












section \<open>Serializer\<close>




















section \<open>Serializer and deserializer\<close>





























text \<open>
  Claim C5. The claim is that \<open>load_reviews_df\<close> parses the file named by its
  parameter. The code reads the literal path \<open>all_reviews.txt\<close> whatever the parameter
  is: called with \<open>data/all_reviews.txt\<close>, as the main flow calls it, on a file system
  that holds one file under each of the two paths, it returns the table of
  \<open>all_reviews.txt\<close>, while the reader applied to the path given finds the other table.
\<close>

theorem load_reviews_df_ignores_file_path:
  "load_reviews_df
     [''all_reviews.txt'' \<mapsto> stored_file
        [''Airline Name | Title | Rating | Verified | Review_Text'', [],
         ''Qatar | Late | 3 | Not Verified | two hours late''],
      ''data/all_reviews.txt'' \<mapsto> stored_file
        [''Airline Name | Title | Rating | Verified | Review_Text'', [],
         ''Emirates | Fine | 9 | Not Verified | no complaints'']]
     ''data/all_reviews.txt''
   = Inr \<lparr>columns = [''Airline Name'', ''Title'', ''Rating'', ''Verified'', ''Review_Text''],
          index = [[]],
          rows = [[Some ''Qatar '', Some '' Late '', Some '' 3 '', Some '' Not Verified '',
                   Some '' two hours late'']]\<rparr>
   \<and> read_csv
       [''all_reviews.txt'' \<mapsto> stored_file
          [''Airline Name | Title | Rating | Verified | Review_Text'', [],
           ''Qatar | Late | 3 | Not Verified | two hours late''],
        ''data/all_reviews.txt'' \<mapsto> stored_file
          [''Airline Name | Title | Rating | Verified | Review_Text'', [],
           ''Emirates | Fine | 9 | Not Verified | no complaints'']]
       ''data/all_reviews.txt'' (CHR ''|'') [1]
     = Inr \<lparr>columns = [''Airline Name '', '' Title '', '' Rating '', '' Verified '', '' Review_Text''],
            index = [[]],
            rows = [[Some ''Emirates '', Some '' Fine '', Some '' 9 '', Some '' Not Verified '',
                     Some '' no complaints'']]\<rparr>"
  by code_simp

end
